theory Spec2Isabelle
  imports Complex_Main
begin

section \<open>Plasma cell scene: selection, ghosting and the secretion animation\<close>

text \<open>
  The development follows \<^verbatim>\<open>src/components/Organelles.tsx\<close>,
  \<^verbatim>\<open>src/components/PlasmaCell.tsx\<close>, the application shell and the constants
  table. JavaScript numbers are modelled by the type \<^typ>\<open>real\<close>: every arithmetic
  operation of the source is the exact operation on reals, so rounding of IEEE doubles is
  outside the model. A value of type \<^verbatim>\<open>string | null\<close> is a \<^typ>\<open>string option\<close>,
  with \<^term>\<open>None\<close> for \<^verbatim>\<open>null\<close>.
\<close>

subsection \<open>Ghost mode opacity (\<^verbatim>\<open>useFadeLogic\<close>)\<close>

record fade =
  opacity :: real
  transparent :: bool

text \<open>
  \<^verbatim>\<open>activeFeature === name\<close> is strict equality of a nullable string with a string, and
  \<^verbatim>\<open>activeFeature !== null\<close> tests for a selection. The three returns are kept in the
  order of the source.
\<close>

definition useFadeLogic :: "string \<Rightarrow> string option \<Rightarrow> real \<Rightarrow> bool \<Rightarrow> fade" where
  "useFadeLogic name activeFeature baseOpacity baseTransparent =
     (let isSelected = (activeFeature = Some name);
          hasSelection = (activeFeature \<noteq> None)
      in if \<not> hasSelection then \<lparr>opacity = baseOpacity, transparent = baseTransparent\<rparr>
         else if isSelected then \<lparr>opacity = baseOpacity, transparent = baseTransparent\<rparr>
         else \<lparr>opacity = baseOpacity * 0.1, transparent = True\<rparr>)"

subsection \<open>Vectors and the instanced transform\<close>

text \<open>
  The vector operations are those of the rendering library's \<^verbatim>\<open>Vector3\<close>, which the
  source calls and does not define. Each is written as the library computes it:
  \<^verbatim>\<open>normalize()\<close> is \<^verbatim>\<open>divideScalar(length() || 1)\<close> and \<^verbatim>\<open>divideScalar(s)\<close> is
  \<^verbatim>\<open>multiplyScalar(1 / s)\<close>. A division by zero is the one place where a computation on
  finite numbers leaves the finite numbers (the quotient is an infinity or NaN), so
  \<open>divideScalar\<close> returns \<^term>\<open>None\<close> there and every caller propagates it.
\<close>

datatype Vector3 = Vector3 (vx: real) (vy: real) (vz: real)

definition subVectors :: "Vector3 \<Rightarrow> Vector3 \<Rightarrow> Vector3" where
  "subVectors a b = Vector3 (vx a - vx b) (vy a - vy b) (vz a - vz b)"

definition add :: "Vector3 \<Rightarrow> Vector3 \<Rightarrow> Vector3" where
  "add a v = Vector3 (vx a + vx v) (vy a + vy v) (vz a + vz v)"

definition multiplyScalar :: "Vector3 \<Rightarrow> real \<Rightarrow> Vector3" where
  "multiplyScalar v s = Vector3 (vx v * s) (vy v * s) (vz v * s)"

definition lengthSq :: "Vector3 \<Rightarrow> real" where
  "lengthSq v = vx v * vx v + vy v * vy v + vz v * vz v"

definition length_v :: "Vector3 \<Rightarrow> real" where
  "length_v v = sqrt (vx v * vx v + vy v * vy v + vz v * vz v)"

definition divideScalar :: "Vector3 \<Rightarrow> real \<Rightarrow> Vector3 option" where
  "divideScalar v s = (if s = 0 then None else Some (multiplyScalar v (1 / s)))"

definition normalize_v :: "Vector3 \<Rightarrow> Vector3 option" where
  "normalize_v v = divideScalar v (if length_v v = 0 then 1 else length_v v)"

definition crossVectors :: "Vector3 \<Rightarrow> Vector3 \<Rightarrow> Vector3" where
  "crossVectors a b =
     Vector3 (vy a * vz b - vz a * vy b) (vz a * vx b - vx a * vz b) (vx a * vy b - vy a * vx b)"

definition lerpVectors :: "Vector3 \<Rightarrow> Vector3 \<Rightarrow> real \<Rightarrow> Vector3" where
  "lerpVectors v1 v2 alpha =
     Vector3 (vx v1 + (vx v2 - vx v1) * alpha) (vy v1 + (vy v2 - vy v1) * alpha)
             (vz v1 + (vz v2 - vz v1) * alpha)"

text \<open>
  The shared \<^verbatim>\<open>dummy\<close> object carries a position, Euler angles and a scale from one
  particle to the next. \<^verbatim>\<open>updateMatrix()\<close> followed by \<^verbatim>\<open>setMatrixAt(i, dummy.matrix)\<close>
  stores the transform composed of these three, so the stored instance is the triple at
  that moment.
\<close>

record Object3D =
  position :: Vector3
  rotation :: Vector3
  scale :: Vector3

record SecretionPath =
  path_start :: Vector3
  path_end :: Vector3

record Particle =
  pathIndex :: nat
  offset :: real

subsection \<open>The secretion cycle clock\<close>

text \<open>
  The remainder operator \<^verbatim>\<open>%\<close> on numbers truncates the quotient toward zero, so the
  result has the sign of the dividend. Its divisor in the source is the literal 6.0.
\<close>

definition trunc :: "real \<Rightarrow> int" where
  "trunc r = (if 0 \<le> r then \<lfloor>r\<rfloor> else \<lceil>r\<rceil>)"

definition js_rem :: "real \<Rightarrow> real \<Rightarrow> real" where
  "js_rem a n = a - n * of_int (trunc (a / n))"

definition cycleDuration :: real where
  "cycleDuration = 6.0"

definition transitionPoint :: real where
  "transitionPoint = 0.75"

definition raw_progress :: "real \<Rightarrow> Particle \<Rightarrow> real" where
  "raw_progress t p = js_rem (t + offset p) cycleDuration / cycleDuration"

subsection \<open>Vesicles: the callback of \<^verbatim>\<open>particles.forEach\<close> in \<^verbatim>\<open>useFrame\<close>\<close>

definition vesicle_scale :: "real \<Rightarrow> real" where
  "vesicle_scale stageProgress =
     (let s = 0.25;
          s = (if stageProgress < 0.1 then stageProgress * 2.5 else s);
          s = (if stageProgress > 0.9 then (1 - stageProgress) * 2.5 else s)
      in s)"

text \<open>
  The perpendicular of the travel direction, with the fallback when it has length zero.
\<close>

definition vesicle_perp :: "Vector3 \<Rightarrow> Vector3 option" where
  "vesicle_perp dir =
     (let worldUp = Vector3 0 1 0
      in case normalize_v (crossVectors dir worldUp) of
           None \<Rightarrow> None
         | Some perp \<Rightarrow> Some (if lengthSq perp = 0 then Vector3 1 0 0 else perp))"

definition vesicle_position :: "SecretionPath \<Rightarrow> real \<Rightarrow> real \<Rightarrow> Vector3 option" where
  "vesicle_position path stageProgress s =
     (let currentPos = lerpVectors (path_start path) (path_end path) stageProgress
      in case normalize_v (subVectors (path_end path) (path_start path)) of
           None \<Rightarrow> None
         | Some dir \<Rightarrow>
             (case vesicle_perp dir of
                None \<Rightarrow> None
              | Some perp \<Rightarrow>
                  (case normalize_v (crossVectors perp dir) of
                     None \<Rightarrow> None
                   | Some localUp \<Rightarrow>
                       (let offsetDistance = s + 0.03
                        in Some (add currentPos (multiplyScalar localUp offsetDistance))))))"

text \<open>
  One particle of the vesicle pool at elapsed time \<open>t\<close>: the new \<^verbatim>\<open>dummy\<close>, the instance
  stored in the vesicle mesh and the instance stored in the cargo mesh. \<^term>\<open>None\<close> is a
  position that is not a finite vector.
\<close>

definition vesicle_update ::
  "real \<Rightarrow> SecretionPath \<Rightarrow> Particle \<Rightarrow> Object3D \<Rightarrow> (Object3D \<times> Object3D \<times> Object3D) option" where
  "vesicle_update t path p dummy =
     (let rawProgress = raw_progress t p;
          stageProgress = rawProgress / transitionPoint
      in if rawProgress < transitionPoint then
           (let s = vesicle_scale stageProgress
            in case vesicle_position path stageProgress s of
                 None \<Rightarrow> None
               | Some currentPos \<Rightarrow>
                   (let vesicle = dummy\<lparr>position := currentPos, scale := Vector3 s s s,
                                        rotation := Vector3 0 0 0\<rparr>;
                        cargo = vesicle\<lparr>scale := Vector3 (s * 0.5) (s * 0.5) (s * 0.5),
                                        rotation := Vector3 (t * 2) t 0\<rparr>
                    in Some (cargo, vesicle, cargo)))
         else
           (let hidden = dummy\<lparr>scale := Vector3 0 0 0\<rparr>
            in Some (hidden, hidden, hidden)))"

subsection \<open>Antibody stream: the callback of \<^verbatim>\<open>particles.forEach\<close> in \<^verbatim>\<open>useFrame\<close>\<close>

definition antibody_scale :: "real \<Rightarrow> real" where
  "antibody_scale stageProgress =
     (let s = 0.25;
          s = (if stageProgress < 0.1 then stageProgress * 2.5 else s);
          s = (if stageProgress > 0.8 then (1 - stageProgress) * 1.25 else s)
      in s)"

definition antibody_position :: "real \<Rightarrow> SecretionPath \<Rightarrow> nat \<Rightarrow> real \<Rightarrow> Vector3 option" where
  "antibody_position t path i stageProgress =
     (case normalize_v (subVectors (path_end path) (path_start path)) of
        None \<Rightarrow> None
      | Some direction \<Rightarrow>
          (let startPos = path_end path;
               travelDist = stageProgress * 6.0;
               currentPos = add startPos (multiplyScalar direction travelDist)
           in Some (Vector3 (vx currentPos)
                      (vy currentPos + sin (t * 5 + real i) * 0.2 * stageProgress)
                      (vz currentPos + cos (t * 5 + real i) * 0.2 * stageProgress))))"

text \<open>
  One particle of the antibody pool, at index \<open>i\<close> of the pool: the new \<^verbatim>\<open>dummy\<close>,
  which is also the instance stored in the mesh.
\<close>

definition antibody_update ::
  "real \<Rightarrow> SecretionPath \<Rightarrow> Particle \<Rightarrow> nat \<Rightarrow> Object3D \<Rightarrow> Object3D option" where
  "antibody_update t path p i dummy =
     (let rawProgress = raw_progress t p
      in if rawProgress \<ge> transitionPoint then
           (let stageProgress = (rawProgress - transitionPoint) / (1.0 - transitionPoint)
            in case antibody_position t path i stageProgress of
                 None \<Rightarrow> None
               | Some currentPos \<Rightarrow>
                   (let s = antibody_scale stageProgress
                    in Some (dummy\<lparr>position := currentPos,
                                    rotation := Vector3 (t * 2) (t * 1.5) (real i),
                                    scale := Vector3 s s s\<rparr>)))
         else Some (dummy\<lparr>scale := Vector3 0 0 0\<rparr>))"

subsection \<open>Random draws\<close>

text \<open>
  \<^verbatim>\<open>Math.random()\<close> is modelled by explicit state passing: the state is the sequence of
  the draws still to come, a call returns the first of them and leaves the rest. Every
  draw of a generator that the language can produce lies in the interval from 0
  (included) to 1 (excluded).
\<close>

type_synonym rng = "nat \<Rightarrow> real"

definition random :: "rng \<Rightarrow> real \<times> rng" where
  "random g = (g 0, \<lambda>n. g (Suc n))"

definition valid_rng :: "rng \<Rightarrow> bool" where
  "valid_rng g = (\<forall>n. 0 \<le> g n \<and> g n < 1)"

text \<open>
  \<^verbatim>\<open>Array.from({ length: n }).map((_, i) => f(i))\<close> and
  \<^verbatim>\<open>new Array(n).fill(0).map((_, i) => f(i))\<close>: the callback runs for the indices in
  increasing order, each call on the draws left by the one before.
\<close>

fun array_map :: "(nat \<Rightarrow> rng \<Rightarrow> 'a \<times> rng) \<Rightarrow> nat \<Rightarrow> nat \<Rightarrow> rng \<Rightarrow> 'a list \<times> rng" where
  "array_map f i 0 g = ([], g)"
| "array_map f i (Suc k) g =
     (let (a, g') = f i g;
          (as, g'') = array_map f (Suc i) k g'
      in (a # as, g''))"

subsection \<open>Secretion paths and particle pools\<close>

definition secretion_path :: "nat \<Rightarrow> rng \<Rightarrow> SecretionPath \<times> rng" where
  "secretion_path i g =
     (let (r1, g) = random g;
          theta = (pi * 2 * real i) / 8 + (r1 * 0.5);
          (r2, g) = random g;
          radius = 2.0 + r2 * 1.5;
          y = cos theta * radius;
          z = sin theta * radius;
          (r3, g) = random g
      in (\<lparr>path_start = Vector3 1.8 0 0, path_end = Vector3 (- 8.5 + r3) y z\<rparr>, g))"

definition SECRETION_PATHS :: "rng \<Rightarrow> SecretionPath list" where
  "SECRETION_PATHS g = fst (array_map secretion_path 0 8 g)"

text \<open>
  Both pools are built by the same callback; \<open>n\<close> is \<^verbatim>\<open>SECRETION_PATHS.length\<close>. The
  index and the length are non-negative integers, on which \<^verbatim>\<open>%\<close> is the remainder of
  natural numbers; for \<open>n = 0\<close> the pools are empty and the callback never runs.
\<close>

definition particle :: "nat \<Rightarrow> nat \<Rightarrow> rng \<Rightarrow> Particle \<times> rng" where
  "particle n i g =
     (let (r, g) = random g
      in (\<lparr>pathIndex = i mod n, offset = r * 10.0\<rparr>, g))"

definition Vesicles_count :: "SecretionPath list \<Rightarrow> nat" where
  "Vesicles_count paths = length paths * 2"

definition Vesicles_particles :: "SecretionPath list \<Rightarrow> rng \<Rightarrow> Particle list" where
  "Vesicles_particles paths g =
     fst (array_map (particle (length paths)) 0 (Vesicles_count paths) g)"

definition AntibodyStream_count :: "SecretionPath list \<Rightarrow> nat" where
  "AntibodyStream_count paths = length paths * 8"

definition AntibodyStream_particles :: "SecretionPath list \<Rightarrow> rng \<Rightarrow> Particle list" where
  "AntibodyStream_particles paths g =
     fst (array_map (particle (length paths)) 0 (AntibodyStream_count paths) g)"

subsection \<open>Mitochondria placement\<close>

definition NUCLEUS_RADIUS :: real where
  "NUCLEUS_RADIUS = 2.4"

definition NUCLEUS_OFFSET :: Vector3 where
  "NUCLEUS_OFFSET = Vector3 5.5 0 0"

record MitoInstance =
  mito_position :: Vector3
  mito_rotation :: Vector3
  mito_scale :: real

definition distToNuc :: "Vector3 \<Rightarrow> real" where
  "distToNuc v =
     sqrt ((vx v - vx NUCLEUS_OFFSET)\<^sup>2 + (vy v - vy NUCLEUS_OFFSET)\<^sup>2
           + (vz v - vz NUCLEUS_OFFSET)\<^sup>2)"

text \<open>
  The detailed variant of the component. The loop counter is the number of iterations
  still to run; \<open>temp\<close> is the array that \<^verbatim>\<open>push\<close> extends at its end.
\<close>

fun Mitochondria_loop :: "nat \<Rightarrow> rng \<Rightarrow> MitoInstance list \<Rightarrow> MitoInstance list" where
  "Mitochondria_loop 0 g temp = temp"
| "Mitochondria_loop (Suc k) g temp =
     (let (r, g) = random g; x = (r - 0.7) * 12;
          (r, g) = random g; y = (r - 0.5) * 5;
          (r, g) = random g; z = (r - 0.5) * 5
      in if sqrt (y * y + z * z) < 5 \<and> distToNuc (Vector3 x y z) > NUCLEUS_RADIUS + 0.5 then
           (let (r1, g) = random g; (r2, g) = random g; (r3, g) = random g; (r4, g) = random g
            in Mitochondria_loop k g
                 (temp @ [\<lparr>mito_position = Vector3 x y z,
                           mito_rotation = Vector3 (r1 * pi) (r2 * pi) (r3 * 0.5),
                           mito_scale = 0.7 + r4 * 0.5\<rparr>]))
         else Mitochondria_loop k g temp)"

definition Mitochondria_instances :: "rng \<Rightarrow> MitoInstance list" where
  "Mitochondria_instances g = Mitochondria_loop 25 g []"

text \<open>The simplified variant of the component, in the second copy of the file.\<close>

fun Mitochondria_simple_loop :: "nat \<Rightarrow> rng \<Rightarrow> MitoInstance list \<Rightarrow> MitoInstance list" where
  "Mitochondria_simple_loop 0 g temp = temp"
| "Mitochondria_simple_loop (Suc k) g temp =
     (let (r, g) = random g; x = (r - 0.7) * 12;
          (r, g) = random g; y = (r - 0.5) * 6;
          (r, g) = random g; z = (r - 0.5) * 6
      in if sqrt (y * y + z * z) < 6 then
           (let (r1, g) = random g; (r2, g) = random g; (r4, g) = random g
            in Mitochondria_simple_loop k g
                 (temp @ [\<lparr>mito_position = Vector3 x y z,
                           mito_rotation = Vector3 (r1 * pi) (r2 * pi) 0,
                           mito_scale = 0.8 + r4 * 0.4\<rparr>]))
         else Mitochondria_simple_loop k g temp)"

definition Mitochondria_simple_instances :: "rng \<Rightarrow> MitoInstance list" where
  "Mitochondria_simple_instances g = Mitochondria_simple_loop 35 g []"

subsection \<open>Selection state\<close>

text \<open>
  The ten organelle components that \<^verbatim>\<open>PlasmaCell\<close> mounts, and the literal each passes
  to \<^verbatim>\<open>useInteraction\<close> and \<^verbatim>\<open>useFadeLogic\<close>.
\<close>

datatype organelle =
  Nucleus | RER | Golgi | Mitochondria | Lysosomes | Centrioles | FreeRibosomes
  | Microtubules | Vesicles | AntibodyStream

fun interaction_name :: "organelle \<Rightarrow> string" where
  "interaction_name Nucleus = ''Nucleus''"
| "interaction_name RER = ''RER''"
| "interaction_name Golgi = ''Golgi''"
| "interaction_name Mitochondria = ''Mitochondria''"
| "interaction_name Lysosomes = ''Lysosomes''"
| "interaction_name Centrioles = ''Centrioles''"
| "interaction_name FreeRibosomes = ''Ribosomes''"
| "interaction_name Microtubules = ''Microtubules''"
| "interaction_name Vesicles = ''Vesicles''"
| "interaction_name AntibodyStream = ''Antibodies''"

text \<open>
  The state is the value held by \<^verbatim>\<open>useState<string | null>(null)\<close> in \<^verbatim>\<open>App\<close>. Its
  setter is called in three places: by \<^verbatim>\<open>handleOrganelleSelect\<close>, which an organelle's
  \<^verbatim>\<open>onClick\<close> handler reaches through \<^verbatim>\<open>onSelect(name)\<close>; by \<^verbatim>\<open>handleClose\<close>, the
  \<^verbatim>\<open>Reset View\<close> button; and by the canvas's \<^verbatim>\<open>onPointerMissed\<close>.
\<close>

definition initial_activeFeature :: "string option" where
  "initial_activeFeature = None"

definition handleOrganelleSelect :: "string \<Rightarrow> string option \<Rightarrow> string option" where
  "handleOrganelleSelect name activeFeature = Some name"

definition onClick :: "organelle \<Rightarrow> string option \<Rightarrow> string option" where
  "onClick c activeFeature = handleOrganelleSelect (interaction_name c) activeFeature"

definition handleClose :: "string option \<Rightarrow> string option" where
  "handleClose activeFeature = None"

definition onPointerMissed :: "string option \<Rightarrow> string option" where
  "onPointerMissed activeFeature = None"

datatype event = Click organelle | PointerMissed | ResetView

fun dispatch :: "string option \<Rightarrow> event \<Rightarrow> string option" where
  "dispatch activeFeature (Click c) = onClick c activeFeature"
| "dispatch activeFeature PointerMissed = onPointerMissed activeFeature"
| "dispatch activeFeature ResetView = handleClose activeFeature"

definition run :: "event list \<Rightarrow> string option" where
  "run evs = foldl dispatch initial_activeFeature evs"

subsection \<open>Materials of the organelle components\<close>

text \<open>
  For each component of the detailed variant, the materials it renders, in the order of
  the source, as a function of its local hover flag and the selection. A material keeps
  the four properties that depend on either: \<^verbatim>\<open>color\<close>, \<^verbatim>\<open>emissive\<close> (\<^term>\<open>None\<close>
  where the element has no such property), \<^verbatim>\<open>transparent\<close> and \<^verbatim>\<open>opacity\<close>. An
  element inside a \<^verbatim>\<open>map\<close> over an array appears once per entry of the array.
\<close>

record material = fade +
  color :: string
  emissive :: "string option"

text \<open>\<^verbatim>\<open>!activeFeature\<close>: true for \<^verbatim>\<open>null\<close> and for the empty string.\<close>

definition not_active :: "string option \<Rightarrow> bool" where
  "not_active activeFeature = (activeFeature = None \<or> activeFeature = Some [])"

definition mat :: "string \<Rightarrow> string option \<Rightarrow> bool \<Rightarrow> real \<Rightarrow> material" where
  "mat c e t opac = \<lparr>opacity = opac, transparent = t, color = c, emissive = e\<rparr>"

definition COLORS_NUCLEUS :: string where "COLORS_NUCLEUS = ''#2E1A47''"
definition COLORS_RER :: string where "COLORS_RER = ''#40E0D0''"
definition COLORS_GOLGI :: string where "COLORS_GOLGI = ''#FFD700''"
definition COLORS_MITOCHONDRIA :: string where "COLORS_MITOCHONDRIA = ''#FF6347''"
definition COLORS_LYSOSOME :: string where "COLORS_LYSOSOME = ''#4ade80''"
definition COLORS_CENTRIOLE :: string where "COLORS_CENTRIOLE = ''#f472b6''"
definition COLORS_FREE_RIBOSOME :: string where "COLORS_FREE_RIBOSOME = ''#cbd5e1''"
definition COLORS_ANTIBODY :: string where "COLORS_ANTIBODY = ''#fbbf24''"
definition COLORS_MICROTUBULE :: string where "COLORS_MICROTUBULE = ''#475569''"

definition Nucleus_materials :: "bool \<Rightarrow> string option \<Rightarrow> material list" where
  "Nucleus_materials hovered activeFeature =
     (let f = useFadeLogic ''Nucleus'' activeFeature 1.0 False
      in [mat (if hovered \<and> not_active activeFeature then ''#3d255e'' else COLORS_NUCLEUS)
              None True (opacity f * 0.7),
          mat ''#3a2255'' (Some ''#1a0a30'') (transparent f) (opacity f * 0.85),
          mat ''#1a0830'' (Some ''#0a0015'') (transparent f) (opacity f),
          mat ''#1a0830'' (Some ''#0a0015'') (transparent f) (opacity f)]
         @ replicate 12 (mat ''#5533aa'' (Some ''#220055'') (transparent f) (opacity f * 0.8)))"

definition Golgi_materials :: "bool \<Rightarrow> string option \<Rightarrow> material list" where
  "Golgi_materials hovered activeFeature =
     (let f = useFadeLogic ''Golgi'' activeFeature 1.0 False
      in replicate 6
           (mat COLORS_GOLGI
              (Some (if hovered \<and> not_active activeFeature then ''#403000'' else ''#201500''))
              (transparent f) (opacity f * 0.9))
         @ map (\<lambda>side.
                 mat (if side = ''trans'' then ''#ffdd55'' else ''#eecc44'')
                   (Some (if hovered \<and> not_active activeFeature then ''#302000'' else ''#151000''))
                   (transparent f) (opacity f * 0.85))
             (replicate 8 ''trans'' @ replicate 4 ''cis''))"

definition Centrioles_materials :: "bool \<Rightarrow> string option \<Rightarrow> material list" where
  "Centrioles_materials hovered activeFeature =
     (let f = useFadeLogic ''Centrioles'' activeFeature 1.0 False;
          barrel =
            replicate (9 * 3)
              (mat COLORS_CENTRIOLE
                 (Some (if hovered \<and> not_active activeFeature then ''#602040'' else ''#200010''))
                 (transparent f) (opacity f))
            @ [mat ''#cc88aa'' (Some ''#401030'') (transparent f) (opacity f * 0.7)]
      in barrel @ barrel @ [mat ''#ffaacc'' None True (opacity f * 0.15)])"

definition RER_materials :: "bool \<Rightarrow> string option \<Rightarrow> material list" where
  "RER_materials hovered activeFeature =
     (let f = useFadeLogic ''RER'' activeFeature 1.0 False
      in replicate (6 + 5 + 5 + 4 + 4 + 5)
           (mat COLORS_RER
              (Some (if hovered \<and> not_active activeFeature then ''#003333'' else ''#001515''))
              (transparent f) (opacity f * 0.85))
         @ [mat ''#2aa8a8''
              (Some (if hovered \<and> not_active activeFeature then ''#104040'' else ''#000000''))
              (transparent f) (opacity f)])"

definition Mitochondrion_materials ::
  "bool \<Rightarrow> string option \<Rightarrow> real \<Rightarrow> bool \<Rightarrow> material list" where
  "Mitochondrion_materials hovered activeFeature opac transpar =
     [mat COLORS_MITOCHONDRIA
        (Some (if hovered \<and> not_active activeFeature then ''#401010'' else ''#150505''))
        transpar (opac * 0.85),
      mat ''#ff7766'' (Some ''#301008'') transpar (opac * 0.7)]
     @ replicate 4 (mat ''#ff8877'' (Some ''#401510'') transpar (opac * 0.9))
     @ [mat ''#ffaa88'' (Some ''#ff6644'') True (opac * 0.3)]"

definition Mitochondria_materials ::
  "MitoInstance list \<Rightarrow> bool \<Rightarrow> string option \<Rightarrow> material list" where
  "Mitochondria_materials instances hovered activeFeature =
     (let f = useFadeLogic ''Mitochondria'' activeFeature 1.0 False
      in concat (map (\<lambda>data. Mitochondrion_materials hovered activeFeature
                                (opacity f) (transparent f)) instances))"

definition Lysosomes_materials :: "bool \<Rightarrow> string option \<Rightarrow> material list" where
  "Lysosomes_materials hovered activeFeature =
     (let f = useFadeLogic ''Lysosomes'' activeFeature 1.0 False
      in [mat COLORS_LYSOSOME
            (Some (if hovered \<and> not_active activeFeature then ''#104010'' else ''#000000''))
            (transparent f) (opacity f)])"

definition FreeRibosomes_materials :: "bool \<Rightarrow> string option \<Rightarrow> material list" where
  "FreeRibosomes_materials hovered activeFeature =
     (let f = useFadeLogic ''Ribosomes'' activeFeature 0.6 True
      in [mat (if hovered \<and> not_active activeFeature then ''#ffffff'' else COLORS_FREE_RIBOSOME)
            None (transparent f) (opacity f)])"

definition Microtubules_materials ::
  "SecretionPath list \<Rightarrow> bool \<Rightarrow> string option \<Rightarrow> material list" where
  "Microtubules_materials paths hovered activeFeature =
     (let f = useFadeLogic ''Microtubules'' activeFeature 0.5 True
      in map (\<lambda>path.
               mat COLORS_MICROTUBULE
                 (Some (if hovered \<and> not_active activeFeature then COLORS_MICROTUBULE
                        else ''#000000''))
                 True (opacity f)) paths)"

definition Vesicles_materials :: "bool \<Rightarrow> string option \<Rightarrow> material list" where
  "Vesicles_materials hovered activeFeature =
     (let f = useFadeLogic ''Vesicles'' activeFeature 0.8 True
      in [mat COLORS_GOLGI
            (Some (if hovered \<and> not_active activeFeature then COLORS_GOLGI else COLORS_GOLGI))
            (transparent f) (opacity f),
          mat COLORS_ANTIBODY None (transparent f) (opacity f)])"

definition AntibodyStream_materials :: "bool \<Rightarrow> string option \<Rightarrow> material list" where
  "AntibodyStream_materials hovered activeFeature =
     (let f = useFadeLogic ''Antibodies'' activeFeature 1.0 True
      in [mat COLORS_ANTIBODY (Some COLORS_ANTIBODY) (transparent f) (opacity f)])"

text \<open>
  The materials of a component, given the secretion paths and the mitochondria instances
  generated at mount.
\<close>

fun materials ::
  "SecretionPath list \<Rightarrow> MitoInstance list \<Rightarrow> organelle \<Rightarrow> bool \<Rightarrow> string option
     \<Rightarrow> material list" where
  "materials paths instances Nucleus = Nucleus_materials"
| "materials paths instances RER = RER_materials"
| "materials paths instances Golgi = Golgi_materials"
| "materials paths instances Mitochondria = Mitochondria_materials instances"
| "materials paths instances Lysosomes = Lysosomes_materials"
| "materials paths instances Centrioles = Centrioles_materials"
| "materials paths instances FreeRibosomes = FreeRibosomes_materials"
| "materials paths instances Microtubules = Microtubules_materials paths"
| "materials paths instances Vesicles = Vesicles_materials"
| "materials paths instances AntibodyStream = AntibodyStream_materials"

subsection \<open>Concrete inputs\<close>

text \<open>
  A track as the path generator produces it for index 0 from the draws 0, 0 and 0.3, a
  vertical track, the state of a fresh \<^verbatim>\<open>Object3D\<close>, and particles at phase offsets
  in each part of the cycle.
\<close>

definition track0 :: SecretionPath where
  "track0 = \<lparr>path_start = Vector3 1.8 0 0, path_end = Vector3 (- 8.2) 2 0\<rparr>"

definition vertical_track :: SecretionPath where
  "vertical_track = \<lparr>path_start = Vector3 1.8 0 0, path_end = Vector3 1.8 3 0\<rparr>"

definition dummy0 :: Object3D where
  "dummy0 = \<lparr>position = Vector3 0 0 0, rotation = Vector3 0 0 0, scale = Vector3 1 1 1\<rparr>"

definition particle_at :: "real \<Rightarrow> Particle" where
  "particle_at off = \<lparr>pathIndex = 0, offset = off\<rparr>"

definition half_rng :: rng where
  "half_rng n = 1 / 2"

definition near_nucleus_rng :: rng where
  "near_nucleus_rng n = (if n = 0 then 119 / 120 else 1 / 2)"

section \<open>Auxiliary facts\<close>

subsection \<open>Bounds on \<open>\<pi>\<close>\<close>

lemma sin_taylor5:
  "x - x ^ 3 / 6 - \<bar>x\<bar> ^ 5 / 120 \<le> sin x \<and> sin x \<le> x - x ^ 3 / 6 + \<bar>x\<bar> ^ 5 / 120"
  for x :: real
proof -
  have s: "(\<Sum>m<5. sin_coeff m * x ^ m) = x - x ^ 3 / 6"
    by (simp add: eval_nat_numeral sin_coeff_Suc cos_coeff_Suc)
  have f: "inverse (fact 5 :: real) = 1 / 120"
    by (simp add: eval_nat_numeral)
  have "\<bar>sin x - (\<Sum>m<5. sin_coeff m * x ^ m)\<bar> \<le> inverse (fact 5) * \<bar>x\<bar> ^ 5"
    by (rule Maclaurin_sin_bound)
  then have "\<bar>sin x - (x - x ^ 3 / 6)\<bar> \<le> \<bar>x\<bar> ^ 5 / 120"
    unfolding s f by simp
  then show ?thesis
    unfolding abs_le_iff by linarith
qed

lemma pi_gt_3: "3 < pi"
proof (rule ccontr)
  assume "\<not> 3 < pi"
  then have le: "pi / 6 \<le> 1 / 2" by simp
  have "sin (pi / 6) \<le> sin (1 / 2)"
    using le pi_ge_two by (intro sin_monotone_2pi_le) simp_all
  then have "1 / 2 \<le> sin (1 / 2 :: real)" by (simp add: sin_30)
  moreover have "sin (1 / 2 :: real) < 1 / 2"
    using sin_taylor5 [of "1 / 2"] by (simp add: power_divide)
  ultimately show False by simp
qed

lemma pi_lt_15_4: "pi < 15 / 4"
proof (rule ccontr)
  assume "\<not> pi < 15 / 4"
  then have ge: "5 / 8 \<le> pi / 6" by simp
  have "sin (5 / 8) \<le> sin (pi / 6)"
    using ge pi_ge_two by (intro sin_monotone_2pi_le) simp_all
  then have "sin (5 / 8 :: real) \<le> 1 / 2" by (simp add: sin_30)
  moreover have "1 / 2 < sin (5 / 8 :: real)"
    using sin_taylor5 [of "5 / 8"] by (simp add: power_divide)
  ultimately show False by simp
qed

lemma cos_30_neq_1: "cos (30 :: real) \<noteq> 1"
proof
  assume "cos (30 :: real) = 1"
  then obtain n :: int where n: "(30 :: real) = of_int n * 2 * pi"
    by (auto simp: cos_one_2pi_int)
  then have eq: "of_int n * pi = (15 :: real)" by (simp add: mult.commute)
  have "0 < n"
  proof (rule ccontr)
    assume "\<not> 0 < n"
    then have "of_int n * pi \<le> (0::real)" by (simp add: mult_nonpos_nonneg)
    with eq show False by simp
  qed
  have "n \<le> 4 \<or> 5 \<le> n" by arith
  then show False
  proof
    assume "n \<le> 4"
    then have "of_int n * pi \<le> 4 * pi" by simp
    with eq pi_lt_15_4 show False by simp
  next
    assume "5 \<le> n"
    then have "5 * pi \<le> of_int n * pi" by simp
    with eq pi_gt_3 show False by simp
  qed
qed

subsection \<open>The clock and the vector operations\<close>

lemma js_rem_period: "0 \<le> a \<Longrightarrow> js_rem (a + 6) 6 = js_rem a 6"
proof -
  assume a: "0 \<le> a"
  have "\<lfloor>(a + 6) / 6\<rfloor> = \<lfloor>a / 6\<rfloor> + 1"
    by (simp add: add_divide_distrib)
  with a show ?thesis
    by (simp add: js_rem_def trunc_def algebra_simps)
qed

lemma raw_progress_period:
  "0 \<le> t + offset p \<Longrightarrow> raw_progress (t + 6) p = raw_progress t p"
  using js_rem_period [of "t + offset p"]
  by (simp add: raw_progress_def cycleDuration_def add.assoc add.commute add.left_commute)

lemma normalize_Some:
  "normalize_v v = Some (multiplyScalar v (1 / (if length_v v = 0 then 1 else length_v v)))"
  by (simp add: normalize_v_def divideScalar_def)

lemma vesicle_perp_Some: "\<exists>perp. vesicle_perp dir = Some perp"
  by (simp add: vesicle_perp_def normalize_Some Let_def)

lemma vesicle_position_Some: "\<exists>pos. vesicle_position path sp s = Some pos"
proof -
  obtain dir where d: "normalize_v (subVectors (path_end path) (path_start path)) = Some dir"
    by (simp add: normalize_Some)
  obtain perp where p: "vesicle_perp dir = Some perp"
    using vesicle_perp_Some by blast
  obtain localUp where l: "normalize_v (crossVectors perp dir) = Some localUp"
    by (simp add: normalize_Some)
  show ?thesis
    by (simp add: vesicle_position_def d p l Let_def)
qed

lemma antibody_position_Some: "\<exists>pos. antibody_position t path i sp = Some pos"
  by (simp add: antibody_position_def normalize_Some Let_def)

lemma vesicle_update_Some: "\<exists>d v c. vesicle_update t path p dummy = Some (d, v, c)"
proof -
  obtain pos where "vesicle_position path (raw_progress t p / transitionPoint)
      (vesicle_scale (raw_progress t p / transitionPoint)) = Some pos"
    using vesicle_position_Some by blast
  then show ?thesis
    by (simp add: vesicle_update_def Let_def)
qed

lemma antibody_update_Some: "\<exists>a. antibody_update t path p i dummy = Some a"
proof -
  obtain pos where "antibody_position t path i 
     ((raw_progress t p - transitionPoint) / (1.0 - transitionPoint)) = Some pos"
    using antibody_position_Some by blast
  then show ?thesis
    by (simp add: antibody_update_def Let_def)
qed

lemma vesicle_update_scale:
  assumes "vesicle_update t path p dummy = Some (d, v, c)"
  shows "scale v = (if raw_progress t p < transitionPoint
           then (let s = vesicle_scale (raw_progress t p / transitionPoint) in Vector3 s s s)
           else Vector3 0 0 0)"
    and "scale c = (if raw_progress t p < transitionPoint
           then (let s = vesicle_scale (raw_progress t p / transitionPoint) in Vector3 (s * 0.5) (s * 0.5) (s * 0.5))
           else Vector3 0 0 0)"
  using assms
  by (auto simp: vesicle_update_def Let_def split: if_splits option.splits)

lemma antibody_update_scale:
  assumes "antibody_update t path p i dummy = Some a"
  shows "scale a = (if raw_progress t p \<ge> transitionPoint
           then (let s = antibody_scale ((raw_progress t p - transitionPoint) / (1.0 - transitionPoint)) in Vector3 s s s)
           else Vector3 0 0 0)"
  using assms
  by (auto simp: antibody_update_def Let_def split: if_splits option.splits)

lemma normalize_vertical: "normalize_v (Vector3 0 k 0) = Some (Vector3 0 (sgn k) 0)"
  by (simp add: normalize_v_def divideScalar_def length_v_def multiplyScalar_def sgn_real_def)

lemma normalize_zero: "normalize_v (Vector3 0 0 0) = Some (Vector3 0 0 0)"
  by (simp add: normalize_v_def divideScalar_def length_v_def multiplyScalar_def)

lemma normalize_z: "normalize_v (Vector3 0 0 k) = Some (Vector3 0 0 (sgn k))"
  by (simp add: normalize_v_def divideScalar_def length_v_def multiplyScalar_def sgn_real_def)

lemma vesicle_perp_vertical: "vesicle_perp (Vector3 0 d 0) = Some (Vector3 1 0 0)"
  by (simp add: vesicle_perp_def crossVectors_def normalize_zero lengthSq_def)

lemma raw_progress_0_5: "raw_progress 0 (particle_at 5) = 5 / 6"
  by (simp add: raw_progress_def particle_at_def js_rem_def trunc_def cycleDuration_def)

lemma raw_progress_6_5: "raw_progress 6 (particle_at 5) = 5 / 6"
  by (simp add: raw_progress_def particle_at_def js_rem_def trunc_def cycleDuration_def)

lemma raw_progress_at:
  "0 \<le> off \<Longrightarrow> off < 6 \<Longrightarrow> raw_progress 0 (particle_at off) = off / 6"
proof -
  assume a: "0 \<le> off" "off < 6"
  then have "\<lfloor>off / 6\<rfloor> = 0" by (simp add: floor_eq_iff)
  with a show ?thesis
    by (simp add: raw_progress_def particle_at_def js_rem_def trunc_def cycleDuration_def)
qed

subsection \<open>Random draws and generated arrays\<close>

lemma length_array_map: "length (fst (array_map f i k g)) = k"
proof (induction k arbitrary: i g)
  case 0
  then show ?case by simp
next
  case (Suc k)
  obtain a g' where fa: "f i g = (a, g')" by (cases "f i g")
  obtain as g'' where rest: "array_map f (Suc i) k g' = (as, g'')"
    by (cases "array_map f (Suc i) k g'")
  from Suc.IH [of "Suc i" g'] rest have "length as = k" by simp
  with fa rest show ?case by simp
qed

lemma array_map_nth:
  assumes step: "\<And>j h. valid_rng h \<Longrightarrow> valid_rng (snd (f j h)) \<and> Q j (fst (f j h))"
  shows "valid_rng g \<Longrightarrow> n < k \<Longrightarrow> Q (i + n) (fst (array_map f i k g) ! n)"
proof (induction k arbitrary: i g n)
  case 0
  then show ?case by simp
next
  case (Suc k)
  obtain a g' where fa: "f i g = (a, g')" by (cases "f i g")
  obtain as g'' where rest: "array_map f (Suc i) k g' = (as, g'')"
    by (cases "array_map f (Suc i) k g'")
  from step [OF Suc.prems(1), of i] fa have g': "valid_rng g'" and qa: "Q i a" by simp_all
  show ?case
  proof (cases n)
    case 0
    with fa rest qa show ?thesis by simp
  next
    case (Suc m)
    with Suc.prems have "m < k" by simp
    from Suc.IH [OF g' this, of "Suc i"] rest Suc fa show ?thesis by simp
  qed
qed

lemma secretion_path_step:
  "valid_rng h \<Longrightarrow> valid_rng (snd (secretion_path j h)) \<and>
     (path_start (fst (secretion_path j h)) = Vector3 1.8 0 0 \<and>
      - 8.5 \<le> vx (path_end (fst (secretion_path j h))) \<and>
      vx (path_end (fst (secretion_path j h))) < - 7.5)"
proof -
  assume v: "valid_rng h"
  then have r3: "0 \<le> h (Suc (Suc 0)) \<and> h (Suc (Suc 0)) < 1"
    by (simp add: valid_rng_def)
  from v have "valid_rng (\<lambda>n. h (Suc (Suc (Suc n))))"
    by (simp add: valid_rng_def)
  with r3 show ?thesis
    by (simp add: secretion_path_def random_def Let_def)
qed

lemma half_rng_valid: "valid_rng half_rng"
  by (simp add: valid_rng_def half_rng_def)

lemma half_rng_random: "random half_rng = (1 / 2, half_rng)"
  by (simp add: random_def half_rng_def fun_eq_iff)

lemma near_nucleus_rng_random: "random near_nucleus_rng = (119 / 120, half_rng)"
  by (simp add: random_def near_nucleus_rng_def half_rng_def fun_eq_iff)

lemma particle_step:
  "valid_rng h \<Longrightarrow> valid_rng (snd (particle n j h)) \<and>
     (pathIndex (fst (particle n j h)) = j mod n \<and>
      0 \<le> offset (fst (particle n j h)) \<and> offset (fst (particle n j h)) < 10)"
  by (simp add: particle_def random_def valid_rng_def Let_def)

subsection \<open>The placement loops\<close>

lemma Mitochondria_loop_outside:
  "\<forall>m \<in> set temp. distToNuc (mito_position m) > NUCLEUS_RADIUS + 0.5 \<Longrightarrow>
   \<forall>m \<in> set (Mitochondria_loop k g temp). distToNuc (mito_position m) > NUCLEUS_RADIUS + 0.5"
proof (induction k arbitrary: g temp)
  case 0
  then show ?case by simp
next
  case (Suc k)
  show ?case
    apply (simp only: Mitochondria_loop.simps Let_def split_def)
    apply (split if_split)
    apply (intro conjI impI)
     apply (rule Suc.IH)
     apply (use Suc.prems in simp)
    apply (rule Suc.IH)
    apply (rule Suc.prems)
    done
qed

lemma Mitochondria_loop_hd:
  "temp \<noteq> [] \<Longrightarrow> Mitochondria_loop k g temp \<noteq> [] \<and> hd (Mitochondria_loop k g temp) = hd temp"
  by (induction k arbitrary: g temp) (simp_all add: random_def Let_def)

lemma Mitochondria_simple_loop_hd:
  "temp \<noteq> [] \<Longrightarrow>
   Mitochondria_simple_loop k g temp \<noteq> [] \<and> hd (Mitochondria_simple_loop k g temp) = hd temp"
  by (induction k arbitrary: g temp) (simp_all add: random_def Let_def)

lemma Mitochondria_instances_half:
  "Mitochondria_instances half_rng \<noteq> [] \<and>
   mito_position (hd (Mitochondria_instances half_rng)) = Vector3 (- 2.4) 0 0"
proof -
  have "(29 / 10)\<^sup>2 < (6241 / 100 :: real)"
    by (simp add: power2_eq_square)
  then have "29 / 10 < sqrt (6241 / 100 :: real)"
    by (rule real_less_rsqrt)
  then have d: "29 / 10 < distToNuc (Vector3 (- (12 / 5)) 0 0)"
    by (simp add: distToNuc_def NUCLEUS_OFFSET_def power2_eq_square)
  have "Mitochondria_instances half_rng =
      Mitochondria_loop 24 half_rng
        [\<lparr>mito_position = Vector3 (- 2.4) 0 0,
          mito_rotation = Vector3 (1 / 2 * pi) (1 / 2 * pi) (1 / 2 * 0.5),
          mito_scale = 0.7 + 1 / 2 * 0.5\<rparr>]"
    unfolding Mitochondria_instances_def
    using Mitochondria_loop.simps(2) [of 24 half_rng "[]"] d
    by (simp add: half_rng_random NUCLEUS_RADIUS_def)
  then show ?thesis
    using Mitochondria_loop_hd [of "[\<lparr>mito_position = Vector3 (- 2.4) 0 0,
          mito_rotation = Vector3 (1 / 2 * pi) (1 / 2 * pi) (1 / 2 * 0.5),
          mito_scale = 0.7 + 1 / 2 * 0.5\<rparr>]" 24 half_rng]
    by simp
qed

text \<open>
  The detailed variant of the generator keeps every accepted instance outside the
  exclusion sphere around the nucleus, whatever the draws; the draws that are all 1/2
  give an accepted instance at (-2.4, 0, 0).
\<close>

lemma Mitochondria_detailed_outside:
  "\<forall>m \<in> set (Mitochondria_instances g).
     distToNuc (mito_position m) > NUCLEUS_RADIUS + 0.5"
  unfolding Mitochondria_instances_def
  by (rule Mitochondria_loop_outside) simp

lemma Mitochondria_detailed_outside_example:
  "hd (Mitochondria_instances half_rng) \<in> set (Mitochondria_instances half_rng) \<and>
   mito_position (hd (Mitochondria_instances half_rng)) = Vector3 (- 2.4) 0 0 \<and>
   distToNuc (mito_position (hd (Mitochondria_instances half_rng))) > NUCLEUS_RADIUS + 0.5"
proof -
  from Mitochondria_instances_half
  have m: "hd (Mitochondria_instances half_rng) \<in> set (Mitochondria_instances half_rng)"
    by simp
  from Mitochondria_detailed_outside [of half_rng, rule_format, OF m] m
    Mitochondria_instances_half
  show ?thesis by simp
qed

subsection \<open>Selection state and materials\<close>

lemma dispatch_valid:
  "dispatch s e \<in> {None, Some ''Nucleus'', Some ''Golgi'', Some ''RER'', Some ''Mitochondria'',
      Some ''Lysosomes'', Some ''Centrioles'', Some ''Ribosomes'', Some ''Microtubules'',
      Some ''Vesicles'', Some ''Antibodies''}"
proof (cases e)
  case (Click c)
  then show ?thesis
    by (cases c) (simp_all add: onClick_def handleOrganelleSelect_def)
next
  case PointerMissed
  then show ?thesis by (simp add: onPointerMissed_def)
next
  case ResetView
  then show ?thesis by (simp add: handleClose_def)
qed

lemma foldl_dispatch_valid:
  "s \<in> {None, Some ''Nucleus'', Some ''Golgi'', Some ''RER'', Some ''Mitochondria'',
      Some ''Lysosomes'', Some ''Centrioles'', Some ''Ribosomes'', Some ''Microtubules'',
      Some ''Vesicles'', Some ''Antibodies''} \<Longrightarrow>
   foldl dispatch s evs \<in> {None, Some ''Nucleus'', Some ''Golgi'', Some ''RER'',
      Some ''Mitochondria'', Some ''Lysosomes'', Some ''Centrioles'', Some ''Ribosomes'',
      Some ''Microtubules'', Some ''Vesicles'', Some ''Antibodies''}"
proof (induction evs arbitrary: s)
  case Nil
  then show ?case by simp
next
  case (Cons e evs)
  show ?case
    unfolding foldl_Cons by (rule Cons.IH) (rule dispatch_valid)
qed

lemmas materials_defs =
  Nucleus_materials_def RER_materials_def Golgi_materials_def Mitochondria_materials_def
  Mitochondrion_materials_def Lysosomes_materials_def Centrioles_materials_def
  FreeRibosomes_materials_def Microtubules_materials_def Vesicles_materials_def
  AntibodyStream_materials_def mat_def Let_def

section \<open>Theorems\<close>

text \<open>
  C1. For every organelle name, base opacity B, base transparency T and selection S, the
  fade logic returns (B, T) when S is none, (B, T) when S is the organelle's own name, and
  (B * 0.1, transparent = true) for every other selection. Both copies of
  \<^verbatim>\<open>useFadeLogic\<close> in the source are the same text.
\<close>

theorem useFadeLogic_cases:
  "(S = None \<longrightarrow> useFadeLogic name S B T = \<lparr>opacity = B, transparent = T\<rparr>) \<and>
   (S = Some name \<longrightarrow> useFadeLogic name S B T = \<lparr>opacity = B, transparent = T\<rparr>) \<and>
   (S \<noteq> None \<and> S \<noteq> Some name \<longrightarrow>
      useFadeLogic name S B T = \<lparr>opacity = B * 0.1, transparent = True\<rparr>)"
  by (simp add: useFadeLogic_def)

theorem useFadeLogic_cases_witness:
  "useFadeLogic ''Golgi'' None 0.8 False = \<lparr>opacity = 0.8, transparent = False\<rparr> \<and>
   useFadeLogic ''Golgi'' (Some ''Golgi'') 0.8 False = \<lparr>opacity = 0.8, transparent = False\<rparr> \<and>
   useFadeLogic ''Golgi'' (Some ''RER'') 0.8 False = \<lparr>opacity = 0.8 * 0.1, transparent = True\<rparr>"
  using useFadeLogic_cases [of None "''Golgi''" "0.8" False]
        useFadeLogic_cases [of "Some ''Golgi''" "''Golgi''" "0.8" False]
        useFadeLogic_cases [of "Some ''RER''" "''Golgi''" "0.8" False]
  by simp

text \<open>
  C2, as the claim states it, fails: the lateral drift of an antibody is a sine and a
  cosine of \<open>5 t + i\<close>, taken from the elapsed time itself and not from the cycle clock,
  and 30 is not a multiple of \<open>2 \<pi>\<close>. The antibody at pool index 0 with phase offset 5 on
  \<open>track0\<close> is at a different position at time 6 than at time 0.
\<close>

theorem antibody_position_not_periodic:
  "map_option position (antibody_update 6 track0 (particle_at 5) 0 dummy0)
     \<noteq> map_option position (antibody_update 0 track0 (particle_at 5) 0 dummy0)"
proof
  assume eq: "map_option position (antibody_update 6 track0 (particle_at 5) 0 dummy0)
     = map_option position (antibody_update 0 track0 (particle_at 5) 0 dummy0)"
  have "cos (30 :: real) = 1"
    using eq
    by (simp add: antibody_update_def antibody_position_def normalize_Some raw_progress_0_5
        raw_progress_6_5 transitionPoint_def Let_def add_def split: if_splits)
  with cos_30_neq_1 show False by simp
qed

text \<open>
  C2, amended. For every particle and every elapsed time \<open>t\<close> with \<open>t\<close> plus the phase
  offset non-negative, one cycle later (\<open>t + 6\<close>): the position and the scale (hence the
  visibility) of the vesicle and of its cargo are the same; the scale (hence the
  visibility) and the x coordinate of the antibody are the same; a hidden antibody is
  stored unchanged; and the y and z coordinates of a visible antibody are the same once
  the drift term of the respective time is taken off.
\<close>

theorem secretion_cycle_period:
  assumes "0 \<le> t + offset p"
  shows
    "map_option (\<lambda>(d, v, c). (position v, scale v, position c, scale c))
         (vesicle_update (t + 6) path p dummy)
       = map_option (\<lambda>(d, v, c). (position v, scale v, position c, scale c))
           (vesicle_update t path p dummy) \<and>
     map_option (\<lambda>a. (vx (position a), scale a)) (antibody_update (t + 6) path p i dummy)
       = map_option (\<lambda>a. (vx (position a), scale a)) (antibody_update t path p i dummy) \<and>
     (raw_progress t p < transitionPoint \<longrightarrow>
        antibody_update (t + 6) path p i dummy = antibody_update t path p i dummy) \<and>
     (raw_progress t p \<ge> transitionPoint \<and>
      sp = (raw_progress t p - transitionPoint) / (1.0 - transitionPoint) \<longrightarrow>
        map_option (\<lambda>a. (vy (position a) - sin ((t + 6) * 5 + real i) * 0.2 * sp,
                          vz (position a) - cos ((t + 6) * 5 + real i) * 0.2 * sp))
            (antibody_update (t + 6) path p i dummy)
          = map_option (\<lambda>a. (vy (position a) - sin (t * 5 + real i) * 0.2 * sp,
                              vz (position a) - cos (t * 5 + real i) * 0.2 * sp))
              (antibody_update t path p i dummy))"
proof -
  note rp = raw_progress_period [OF assms]
  have v: "map_option (\<lambda>(d, v, c). (position v, scale v, position c, scale c))
         (vesicle_update (t + 6) path p dummy)
       = map_option (\<lambda>(d, v, c). (position v, scale v, position c, scale c))
           (vesicle_update t path p dummy)"
    by (simp add: vesicle_update_def rp Let_def split: option.splits)
  have a1: "map_option (\<lambda>a. (vx (position a), scale a)) (antibody_update (t + 6) path p i dummy)
       = map_option (\<lambda>a. (vx (position a), scale a)) (antibody_update t path p i dummy)"
    by (simp add: antibody_update_def antibody_position_def rp Let_def split: option.splits)
  have a2: "raw_progress t p < transitionPoint \<longrightarrow>
        antibody_update (t + 6) path p i dummy = antibody_update t path p i dummy"
    by (simp add: antibody_update_def rp Let_def)
  have a3: "raw_progress t p \<ge> transitionPoint \<and>
      sp = (raw_progress t p - transitionPoint) / (1.0 - transitionPoint) \<longrightarrow>
        map_option (\<lambda>a. (vy (position a) - sin ((t + 6) * 5 + real i) * 0.2 * sp,
                          vz (position a) - cos ((t + 6) * 5 + real i) * 0.2 * sp))
            (antibody_update (t + 6) path p i dummy)
          = map_option (\<lambda>a. (vy (position a) - sin (t * 5 + real i) * 0.2 * sp,
                              vz (position a) - cos (t * 5 + real i) * 0.2 * sp))
              (antibody_update t path p i dummy)"
    by (simp add: antibody_update_def antibody_position_def rp Let_def split: option.splits)
  from v a1 a2 a3 show ?thesis by blast
qed

theorem secretion_cycle_period_witness:
  "map_option (\<lambda>(d, v, c). (position v, scale v, position c, scale c))
       (vesicle_update (0 + 6) track0 (particle_at 1) dummy0)
     = map_option (\<lambda>(d, v, c). (position v, scale v, position c, scale c))
         (vesicle_update 0 track0 (particle_at 1) dummy0) \<and>
   antibody_update (0 + 6) track0 (particle_at 1) 0 dummy0
     = antibody_update 0 track0 (particle_at 1) 0 dummy0 \<and>
   map_option (\<lambda>a. (vx (position a), scale a)) (antibody_update (0 + 6) track0 (particle_at 5) 0 dummy0)
     = map_option (\<lambda>a. (vx (position a), scale a)) (antibody_update 0 track0 (particle_at 5) 0 dummy0) \<and>
   map_option (\<lambda>a. (vy (position a) - sin ((0 + 6) * 5 + real 0) * 0.2 * (1 / 3),
                     vz (position a) - cos ((0 + 6) * 5 + real 0) * 0.2 * (1 / 3)))
       (antibody_update (0 + 6) track0 (particle_at 5) 0 dummy0)
     = map_option (\<lambda>a. (vy (position a) - sin (0 * 5 + real 0) * 0.2 * (1 / 3),
                         vz (position a) - cos (0 * 5 + real 0) * 0.2 * (1 / 3)))
         (antibody_update 0 track0 (particle_at 5) 0 dummy0)"
proof -
  have o1: "0 \<le> 0 + offset (particle_at 1)" and o5: "0 \<le> 0 + offset (particle_at 5)"
    by (simp_all add: particle_at_def)
  have r1: "raw_progress 0 (particle_at 1) < transitionPoint"
    by (simp add: raw_progress_at transitionPoint_def)
  have r5: "raw_progress 0 (particle_at 5) \<ge> transitionPoint \<and>
      1 / 3 = (raw_progress 0 (particle_at 5) - transitionPoint) / (1.0 - transitionPoint)"
    by (simp add: raw_progress_at transitionPoint_def)
  show ?thesis
    using secretion_cycle_period [OF o1, of track0 dummy0 0 "1 / 3"]
          secretion_cycle_period [OF o5, of track0 dummy0 0 "1 / 3"] r1 r5
    by blast
qed

text \<open>
  C3. For one particle (a path, a phase offset) and one elapsed time: the vesicle and its
  cargo have a non-zero, in particular a positive, scale only when the raw progress is
  below 0.75, the antibody only when it is at least 0.75; at exactly 0.75 the vesicle and
  the cargo have scale zero; and the vesicle and the antibody are never both at the full
  scale 0.25.
\<close>

theorem phase_windows:
  assumes "vesicle_update t path p dummy = Some (d, v, c)"
      and "antibody_update t path p i dummy' = Some a"
  shows "(scale v \<noteq> Vector3 0 0 0 \<longrightarrow> raw_progress t p < 0.75) \<and>
         (scale c \<noteq> Vector3 0 0 0 \<longrightarrow> raw_progress t p < 0.75) \<and>
         (scale a \<noteq> Vector3 0 0 0 \<longrightarrow> raw_progress t p \<ge> 0.75) \<and>
         (raw_progress t p = 0.75 \<longrightarrow> scale v = Vector3 0 0 0 \<and> scale c = Vector3 0 0 0) \<and>
         \<not> (scale v = Vector3 0.25 0.25 0.25 \<and> scale a = Vector3 0.25 0.25 0.25)"
  using vesicle_update_scale [OF assms(1)] antibody_update_scale [OF assms(2)]
  by (simp add: transitionPoint_def split: if_splits)

theorem phase_windows_witness:
  "(\<exists>d v c a. vesicle_update 0 track0 (particle_at 1) dummy0 = Some (d, v, c) \<and>
       antibody_update 0 track0 (particle_at 1) 0 dummy0 = Some a \<and>
       scale v \<noteq> Vector3 0 0 0 \<and> scale c \<noteq> Vector3 0 0 0 \<and>
       raw_progress 0 (particle_at 1) < 0.75) \<and>
   (\<exists>d v c a. vesicle_update 0 track0 (particle_at 5) dummy0 = Some (d, v, c) \<and>
       antibody_update 0 track0 (particle_at 5) 0 dummy0 = Some a \<and>
       scale a \<noteq> Vector3 0 0 0 \<and> raw_progress 0 (particle_at 5) \<ge> 0.75) \<and>
   (\<exists>d v c a. vesicle_update 0 track0 (particle_at 4.5) dummy0 = Some (d, v, c) \<and>
       antibody_update 0 track0 (particle_at 4.5) 0 dummy0 = Some a \<and>
       raw_progress 0 (particle_at 4.5) = 0.75 \<and>
       scale v = Vector3 0 0 0 \<and> scale c = Vector3 0 0 0)"
proof (intro conjI)
  obtain d v c where v: "vesicle_update 0 track0 (particle_at 1) dummy0 = Some (d, v, c)"
    using vesicle_update_Some by blast
  obtain a where a: "antibody_update 0 track0 (particle_at 1) 0 dummy0 = Some a"
    using antibody_update_Some by blast
  have "scale v \<noteq> Vector3 0 0 0" "scale c \<noteq> Vector3 0 0 0"
    using vesicle_update_scale [OF v]
    by (simp_all add: raw_progress_at transitionPoint_def vesicle_scale_def Let_def)
  with phase_windows [OF v a] v a
  show "\<exists>d v c a. vesicle_update 0 track0 (particle_at 1) dummy0 = Some (d, v, c) \<and>
       antibody_update 0 track0 (particle_at 1) 0 dummy0 = Some a \<and>
       scale v \<noteq> Vector3 0 0 0 \<and> scale c \<noteq> Vector3 0 0 0 \<and>
       raw_progress 0 (particle_at 1) < 0.75"
    by blast
next
  obtain d v c where v: "vesicle_update 0 track0 (particle_at 5) dummy0 = Some (d, v, c)"
    using vesicle_update_Some by blast
  obtain a where a: "antibody_update 0 track0 (particle_at 5) 0 dummy0 = Some a"
    using antibody_update_Some by blast
  have "scale a \<noteq> Vector3 0 0 0"
    using antibody_update_scale [OF a]
    by (simp add: raw_progress_at transitionPoint_def antibody_scale_def Let_def)
  with phase_windows [OF v a] v a
  show "\<exists>d v c a. vesicle_update 0 track0 (particle_at 5) dummy0 = Some (d, v, c) \<and>
       antibody_update 0 track0 (particle_at 5) 0 dummy0 = Some a \<and>
       scale a \<noteq> Vector3 0 0 0 \<and> raw_progress 0 (particle_at 5) \<ge> 0.75"
    by blast
next
  obtain d v c where v: "vesicle_update 0 track0 (particle_at 4.5) dummy0 = Some (d, v, c)"
    using vesicle_update_Some by blast
  obtain a where a: "antibody_update 0 track0 (particle_at 4.5) 0 dummy0 = Some a"
    using antibody_update_Some by blast
  have "raw_progress 0 (particle_at 4.5) = 0.75"
    by (simp add: raw_progress_at)
  with phase_windows [OF v a] v a
  show "\<exists>d v c a. vesicle_update 0 track0 (particle_at 4.5) dummy0 = Some (d, v, c) \<and>
       antibody_update 0 track0 (particle_at 4.5) 0 dummy0 = Some a \<and>
       raw_progress 0 (particle_at 4.5) = 0.75 \<and>
       scale v = Vector3 0 0 0 \<and> scale c = Vector3 0 0 0"
    by blast
qed

text \<open>
  C4. In the vesicle phase, with stage progress \<open>sp\<close> the raw progress divided by 0.75,
  the scale stored for the vesicle is \<open>sp * 2.5\<close> when \<open>sp < 0.1\<close>, 0.25 when
  \<open>0.1 \<le> sp \<le> 0.9\<close>, and \<open>(1 - sp) * 2.5\<close> when \<open>sp > 0.9\<close>.
\<close>

theorem vesicle_scale_ramp:
  assumes "vesicle_update t path p dummy = Some (d, v, c)"
      and "raw_progress t p < transitionPoint"
      and "sp = raw_progress t p / transitionPoint"
  shows "(sp < 0.1 \<longrightarrow> scale v = Vector3 (sp * 2.5) (sp * 2.5) (sp * 2.5)) \<and>
         (0.1 \<le> sp \<and> sp \<le> 0.9 \<longrightarrow> scale v = Vector3 0.25 0.25 0.25) \<and>
         (sp > 0.9 \<longrightarrow> scale v = Vector3 ((1 - sp) * 2.5) ((1 - sp) * 2.5) ((1 - sp) * 2.5))"
  using vesicle_update_scale(1) [OF assms(1)] assms(2,3)
  by (simp add: vesicle_scale_def Let_def)

theorem vesicle_scale_ramp_witness:
  "(\<exists>d v c. vesicle_update 0 track0 (particle_at 0.3) dummy0 = Some (d, v, c) \<and>
       scale v = Vector3 (1 / 6) (1 / 6) (1 / 6)) \<and>
   (\<exists>d v c. vesicle_update 0 track0 (particle_at 1) dummy0 = Some (d, v, c) \<and>
       scale v = Vector3 0.25 0.25 0.25) \<and>
   (\<exists>d v c. vesicle_update 0 track0 (particle_at 4.2) dummy0 = Some (d, v, c) \<and>
       scale v = Vector3 (1 / 6) (1 / 6) (1 / 6))"
proof (intro conjI)
  obtain d v c where v: "vesicle_update 0 track0 (particle_at 0.3) dummy0 = Some (d, v, c)"
    using vesicle_update_Some by blast
  have r: "raw_progress 0 (particle_at 0.3) < transitionPoint"
    by (simp add: raw_progress_at transitionPoint_def)
  have sp: "1 / 15 = raw_progress 0 (particle_at 0.3) / transitionPoint"
    by (simp add: raw_progress_at transitionPoint_def)
  show "\<exists>d v c. vesicle_update 0 track0 (particle_at 0.3) dummy0 = Some (d, v, c) \<and>
       scale v = Vector3 (1 / 6) (1 / 6) (1 / 6)"
    using vesicle_scale_ramp [OF v r sp] v by simp
next
  obtain d v c where v: "vesicle_update 0 track0 (particle_at 1) dummy0 = Some (d, v, c)"
    using vesicle_update_Some by blast
  have r: "raw_progress 0 (particle_at 1) < transitionPoint"
    by (simp add: raw_progress_at transitionPoint_def)
  have sp: "2 / 9 = raw_progress 0 (particle_at 1) / transitionPoint"
    by (simp add: raw_progress_at transitionPoint_def)
  show "\<exists>d v c. vesicle_update 0 track0 (particle_at 1) dummy0 = Some (d, v, c) \<and>
       scale v = Vector3 0.25 0.25 0.25"
    using vesicle_scale_ramp [OF v r sp] v by simp
next
  obtain d v c where v: "vesicle_update 0 track0 (particle_at 4.2) dummy0 = Some (d, v, c)"
    using vesicle_update_Some by blast
  have r: "raw_progress 0 (particle_at 4.2) < transitionPoint"
    by (simp add: raw_progress_at transitionPoint_def)
  have sp: "14 / 15 = raw_progress 0 (particle_at 4.2) / transitionPoint"
    by (simp add: raw_progress_at transitionPoint_def)
  show "\<exists>d v c. vesicle_update 0 track0 (particle_at 4.2) dummy0 = Some (d, v, c) \<and>
       scale v = Vector3 (1 / 6) (1 / 6) (1 / 6)"
    using vesicle_scale_ramp [OF v r sp] v by simp
qed

text \<open>
  C5. Whatever the draws, the generated path set has exactly 8 entries; every entry
  starts at the Golgi coordinate (1.8, 0, 0), which the generator does not jitter, and
  ends at an x coordinate from -8.5 up to, and not including, -7.5, so on the negative
  side.
\<close>

theorem SECRETION_PATHS_shape:
  assumes "valid_rng g"
  shows "length (SECRETION_PATHS g) = 8 \<and>
         (\<forall>p \<in> set (SECRETION_PATHS g).
            path_start p = Vector3 1.8 0 0 \<and>
            - 8.5 \<le> vx (path_end p) \<and> vx (path_end p) \<le> - 7.5 \<and> vx (path_end p) < 0)"
proof (intro conjI ballI)
  show len: "length (SECRETION_PATHS g) = 8"
    by (simp add: SECRETION_PATHS_def length_array_map)
  fix p assume "p \<in> set (SECRETION_PATHS g)"
  then obtain n where n: "n < 8" and p: "p = SECRETION_PATHS g ! n"
    using len by (metis in_set_conv_nth)
  have "path_start p = Vector3 1.8 0 0 \<and> - 8.5 \<le> vx (path_end p) \<and> vx (path_end p) < - 7.5"
    unfolding p SECRETION_PATHS_def
    using array_map_nth [where f = secretion_path and i = 0 and g = g and n = n and k = 8
        and Q = "\<lambda>j q. path_start q = Vector3 1.8 0 0 \<and> - 8.5 \<le> vx (path_end q) \<and>
                       vx (path_end q) < - 7.5", OF secretion_path_step assms n]
    by simp
  then show "path_start p = Vector3 1.8 0 0" "- 8.5 \<le> vx (path_end p)"
    "vx (path_end p) \<le> - 7.5" "vx (path_end p) < 0"
    by simp_all
qed

theorem SECRETION_PATHS_shape_witness:
  "length (SECRETION_PATHS half_rng) = 8 \<and>
   path_start (hd (SECRETION_PATHS half_rng)) = Vector3 1.8 0 0 \<and>
   vx (path_end (hd (SECRETION_PATHS half_rng))) = - 8"
proof -
  have hd: "hd (SECRETION_PATHS half_rng) \<in> set (SECRETION_PATHS half_rng)"
    by (rule hd_in_set) (use length_array_map [of secretion_path 0 8 half_rng]
        in \<open>auto simp: SECRETION_PATHS_def\<close>)
  have "vx (path_end (hd (SECRETION_PATHS half_rng))) = - 8"
    by (simp add: SECRETION_PATHS_def eval_nat_numeral secretion_path_def half_rng_random
        Let_def split: prod.splits)
  with SECRETION_PATHS_shape [OF half_rng_valid] hd show ?thesis
    by blast
qed

text \<open>
  C6. For a path set of any length \<open>n\<close>, the vesicle pool has \<open>2 n\<close> particles and the
  antibody pool \<open>8 n\<close>; the particle at index \<open>i\<close> of either pool has path index
  \<open>i mod n\<close> and a phase offset from 0 up to, and not including, 10.
\<close>

theorem pool_sizes:
  assumes "valid_rng g"
  shows "length (Vesicles_particles paths g) = 2 * length paths \<and>
         length (AntibodyStream_particles paths g) = 8 * length paths \<and>
         (\<forall>i < 2 * length paths.
            pathIndex (Vesicles_particles paths g ! i) = i mod length paths \<and>
            0 \<le> offset (Vesicles_particles paths g ! i) \<and>
            offset (Vesicles_particles paths g ! i) < 10) \<and>
         (\<forall>i < 8 * length paths.
            pathIndex (AntibodyStream_particles paths g ! i) = i mod length paths \<and>
            0 \<le> offset (AntibodyStream_particles paths g ! i) \<and>
            offset (AntibodyStream_particles paths g ! i) < 10)"
proof (intro conjI allI impI)
  show "length (Vesicles_particles paths g) = 2 * length paths"
    by (simp add: Vesicles_particles_def Vesicles_count_def length_array_map)
  show "length (AntibodyStream_particles paths g) = 8 * length paths"
    by (simp add: AntibodyStream_particles_def AntibodyStream_count_def length_array_map)
next
  fix i assume "i < 2 * length paths"
  then have i: "i < Vesicles_count paths" by (simp add: Vesicles_count_def)
  have "pathIndex (Vesicles_particles paths g ! i) = i mod length paths \<and>
        0 \<le> offset (Vesicles_particles paths g ! i) \<and> offset (Vesicles_particles paths g ! i) < 10"
    unfolding Vesicles_particles_def
    using array_map_nth [where f = "particle (length paths)" and i = 0 and g = g and n = i
        and k = "Vesicles_count paths"
        and Q = "\<lambda>j q. pathIndex q = j mod length paths \<and> 0 \<le> offset q \<and> offset q < 10",
        OF particle_step assms i]
    by simp
  then show "pathIndex (Vesicles_particles paths g ! i) = i mod length paths"
    "0 \<le> offset (Vesicles_particles paths g ! i)" "offset (Vesicles_particles paths g ! i) < 10"
    by simp_all
next
  fix i assume "i < 8 * length paths"
  then have i: "i < AntibodyStream_count paths" by (simp add: AntibodyStream_count_def)
  have "pathIndex (AntibodyStream_particles paths g ! i) = i mod length paths \<and>
        0 \<le> offset (AntibodyStream_particles paths g ! i) \<and>
        offset (AntibodyStream_particles paths g ! i) < 10"
    unfolding AntibodyStream_particles_def
    using array_map_nth [where f = "particle (length paths)" and i = 0 and g = g and n = i
        and k = "AntibodyStream_count paths"
        and Q = "\<lambda>j q. pathIndex q = j mod length paths \<and> 0 \<le> offset q \<and> offset q < 10",
        OF particle_step assms i]
    by simp
  then show "pathIndex (AntibodyStream_particles paths g ! i) = i mod length paths"
    "0 \<le> offset (AntibodyStream_particles paths g ! i)"
    "offset (AntibodyStream_particles paths g ! i) < 10"
    by simp_all
qed

theorem pool_sizes_witness:
  "length (Vesicles_particles [track0, vertical_track] half_rng) = 4 \<and>
   length (AntibodyStream_particles [track0, vertical_track] half_rng) = 16 \<and>
   pathIndex (Vesicles_particles [track0, vertical_track] half_rng ! 3) = 1 \<and>
   offset (Vesicles_particles [track0, vertical_track] half_rng ! 3) < 10 \<and>
   pathIndex (AntibodyStream_particles [track0, vertical_track] half_rng ! 13) = 1 \<and>
   offset (AntibodyStream_particles [track0, vertical_track] half_rng ! 13) < 10"
proof -
  note t = pool_sizes [OF half_rng_valid, of "[track0, vertical_track]"]
  note v = t [THEN conjunct2, THEN conjunct2, THEN conjunct1, rule_format, of 3]
  note a = t [THEN conjunct2, THEN conjunct2, THEN conjunct2, rule_format, of 13]
  have m: "(3::nat) mod Suc (Suc 0) = Suc 0" "(13::nat) mod Suc (Suc 0) = Suc 0"
    by presburger+
  from t v a m show ?thesis by simp
qed

text \<open>
  C7. Every accepted mitochondrion is to lie farther from the nucleus offset than the
  nucleus radius plus 0.5. The simplified variant of the generator does not keep this:
  its acceptance test looks at the distance from the x axis only. From the valid draws
  119/120, 1/2, 1/2 it accepts, as its first instance, the position (3.5, 0, 0), at
  distance 2 from the nucleus centre, inside the exclusion radius 2.9. The detailed
  variant tests the distance to the nucleus and rejects that candidate.
\<close>

theorem Mitochondria_simple_inside_nucleus:
  "valid_rng near_nucleus_rng \<and>
   Mitochondria_simple_instances near_nucleus_rng \<noteq> [] \<and>
   mito_position (hd (Mitochondria_simple_instances near_nucleus_rng)) = Vector3 3.5 0 0 \<and>
   \<not> distToNuc (Vector3 3.5 0 0) > NUCLEUS_RADIUS + 0.5"
proof -
  have v: "valid_rng near_nucleus_rng"
    by (simp add: valid_rng_def near_nucleus_rng_def)
  have d: "\<not> distToNuc (Vector3 3.5 0 0) > NUCLEUS_RADIUS + 0.5"
    by (simp add: distToNuc_def NUCLEUS_OFFSET_def NUCLEUS_RADIUS_def)
  have "Mitochondria_simple_instances near_nucleus_rng =
      Mitochondria_simple_loop 34 half_rng
        [\<lparr>mito_position = Vector3 3.5 0 0,
          mito_rotation = Vector3 (1 / 2 * pi) (1 / 2 * pi) 0,
          mito_scale = 0.8 + 1 / 2 * 0.4\<rparr>]"
    unfolding Mitochondria_simple_instances_def
    using Mitochondria_simple_loop.simps(2) [of 34 near_nucleus_rng "[]"]
    by (simp add: half_rng_random near_nucleus_rng_random)
  then show ?thesis
    using Mitochondria_simple_loop_hd [of "[\<lparr>mito_position = Vector3 3.5 0 0,
          mito_rotation = Vector3 (1 / 2 * pi) (1 / 2 * pi) 0,
          mito_scale = 0.8 + 1 / 2 * 0.4\<rparr>]" 34 half_rng] v d
    by simp
qed

text \<open>
  C8. The vesicle position is a finite vector for every path, stage progress and scale:
  no division in its computation has a zero divisor. When the track runs parallel to the
  world up axis, the perpendicular is replaced by the fallback axis (1, 0, 0) and the
  vesicle sits beside the track along the z axis, at the distance of its scale plus the
  tube radius.
\<close>

theorem vesicle_perp_fallback:
  "(\<exists>pos. vesicle_position path sp s = Some pos) \<and>
   (vx (path_end path) = vx (path_start path) \<and> vz (path_end path) = vz (path_start path) \<longrightarrow>
      (\<exists>dir. normalize_v (subVectors (path_end path) (path_start path)) = Some dir \<and>
             vesicle_perp dir = Some (Vector3 1 0 0)) \<and>
      vesicle_position path sp s =
        Some (add (lerpVectors (path_start path) (path_end path) sp)
                  (Vector3 0 0 (sgn (vy (path_end path) - vy (path_start path)) * (s + 0.03)))))"
proof (intro conjI impI)
  show "\<exists>pos. vesicle_position path sp s = Some pos"
    by (rule vesicle_position_Some)
next
  assume par: "vx (path_end path) = vx (path_start path) \<and> vz (path_end path) = vz (path_start path)"
  define k where "k = vy (path_end path) - vy (path_start path)"
  have sub: "subVectors (path_end path) (path_start path) = Vector3 0 k 0"
    using par by (simp add: subVectors_def k_def)
  have dir: "normalize_v (subVectors (path_end path) (path_start path)) = Some (Vector3 0 (sgn k) 0)"
    by (simp add: sub normalize_vertical)
  show "\<exists>dir. normalize_v (subVectors (path_end path) (path_start path)) = Some dir \<and>
             vesicle_perp dir = Some (Vector3 1 0 0)"
    using dir vesicle_perp_vertical by blast
  have up: "normalize_v (crossVectors (Vector3 1 0 0) (Vector3 0 (sgn k) 0)) = Some (Vector3 0 0 (sgn k))"
    by (simp add: crossVectors_def normalize_z)
  show "vesicle_position path sp s =
        Some (add (lerpVectors (path_start path) (path_end path) sp)
                  (Vector3 0 0 (sgn (vy (path_end path) - vy (path_start path)) * (s + 0.03))))"
    by (simp add: vesicle_position_def dir vesicle_perp_vertical up multiplyScalar_def Let_def
        flip: k_def)
qed

theorem vesicle_perp_fallback_witness:
  "vesicle_position vertical_track (1 / 2) 0.25 = Some (Vector3 1.8 1.5 0.28)"
  using vesicle_perp_fallback [of vertical_track "1 / 2" "0.25"]
  by (simp add: vertical_track_def add_def lerpVectors_def)

text \<open>
  C9, as the claim states it, fails: the free ribosomes are drawn with a material that
  has no emissive property, and hovering them while nothing is selected changes the
  material's base colour. The same holds for the nuclear envelope.
\<close>

theorem hover_color_counterexample:
  "color (hd (FreeRibosomes_materials True None)) \<noteq> color (hd (FreeRibosomes_materials False None)) \<and>
   emissive (hd (FreeRibosomes_materials True None)) = emissive (hd (FreeRibosomes_materials False None))"
  by (simp add: FreeRibosomes_materials_def mat_def not_active_def COLORS_FREE_RIBOSOME_def Let_def)

text \<open>
  C9, amended. For every organelle component, every selection and all other inputs
  fixed, toggling the hover flag leaves the opacity and the transparency of every
  material unchanged; while a selection is active it changes nothing at all; with no
  selection it changes no base colour except on the nucleus and the free ribosomes, and
  on these two it changes no emissive colour.
\<close>

theorem hover_frame:
  "map opacity (materials paths instances c h af) = map opacity (materials paths instances c h' af) \<and>
   map transparent (materials paths instances c h af)
     = map transparent (materials paths instances c h' af) \<and>
   (\<not> not_active af \<longrightarrow> materials paths instances c h af = materials paths instances c h' af) \<and>
   (c \<noteq> Nucleus \<and> c \<noteq> FreeRibosomes \<longrightarrow>
      map color (materials paths instances c h af) = map color (materials paths instances c h' af)) \<and>
   (c = Nucleus \<or> c = FreeRibosomes \<longrightarrow>
      map emissive (materials paths instances c h af)
        = map emissive (materials paths instances c h' af))"
  by (cases c) (simp_all add: materials_defs map_concat comp_def)

theorem hover_frame_witness:
  "materials [track0] [] Golgi True (Some ''RER'') = materials [track0] [] Golgi False (Some ''RER'') \<and>
   map color (materials [track0] [] Golgi True None) = map color (materials [track0] [] Golgi False None) \<and>
   map emissive (materials [track0] [] Nucleus True None)
     = map emissive (materials [track0] [] Nucleus False None) \<and>
   map opacity (materials [track0] [] FreeRibosomes True None)
     = map opacity (materials [track0] [] FreeRibosomes False None)"
  using hover_frame [of "[track0]" "[]" Golgi True "Some ''RER''" False]
        hover_frame [of "[track0]" "[]" Golgi True None False]
        hover_frame [of "[track0]" "[]" Nucleus True None False]
        hover_frame [of "[track0]" "[]" FreeRibosomes True None False]
  by (simp add: not_active_def)

text \<open>
  C10. After any sequence of organelle clicks, background misses and resets, starting
  from the initial state, the selection is none or one of the ten organelle names.
\<close>

theorem selection_invariant:
  "run evs \<in> {None, Some ''Nucleus'', Some ''Golgi'', Some ''RER'', Some ''Mitochondria'',
      Some ''Lysosomes'', Some ''Centrioles'', Some ''Ribosomes'', Some ''Microtubules'',
      Some ''Vesicles'', Some ''Antibodies''}"
  unfolding run_def
  by (rule foldl_dispatch_valid) (simp add: initial_activeFeature_def)

end
